theory Spec2Isabelle
  imports Complex_Main
begin

section \<open>Text as the extraction code sees it\<close>

text \<open>
  A table cell delivered by the document reader is \<^verbatim>\<open>Optional[str]\<close>: \<open>None\<close> or a string.
  Strings are modelled as \<^typ>\<open>string\<close>; the character classes used by \<^verbatim>\<open>str.strip\<close>,
  \<^verbatim>\<open>str.split\<close>, \<^verbatim>\<open>str.upper\<close> and by the regular expressions \<^verbatim>\<open>\d\<close>, \<^verbatim>\<open>\s\<close>, \<^verbatim>\<open>\b\<close> are the
  ASCII ones; every other character is neither a digit, a word character nor white space
  and is left alone by \<^verbatim>\<open>upper\<close>.
\<close>

type_synonym cell = "string option"
type_synonym row = "cell list"
type_synonym table = "row list"

definition is_space :: "char \<Rightarrow> bool" where
  "is_space c = (c \<in> set [CHR 0x09, CHR 0x0A, CHR 0x0B, CHR 0x0C, CHR 0x0D,
                            CHR 0x1C, CHR 0x1D, CHR 0x1E, CHR 0x1F, CHR 0x20])"

definition is_digit :: "char \<Rightarrow> bool" where
  "is_digit c = (c \<in> set ''0123456789'')"

definition is_word :: "char \<Rightarrow> bool" where
  "is_word c = (c \<in> set ''abcdefghijklmnopqrstuvwxyzABCDEFGHIJKLMNOPQRSTUVWXYZ0123456789_'')"

definition to_upper :: "char \<Rightarrow> char" where
  "to_upper c = (case map_of (zip ''abcdefghijklmnopqrstuvwxyz'' ''ABCDEFGHIJKLMNOPQRSTUVWXYZ'') c of
                   Some u \<Rightarrow> u | None \<Rightarrow> c)"

text \<open>\<^verbatim>\<open>s.upper()\<close>, \<^verbatim>\<open>s.strip()\<close>, \<^verbatim>\<open>s.split('\n')\<close>, \<^verbatim>\<open>s.split()\<close>, \<^verbatim>\<open>p in s\<close>.\<close>

definition upper :: "string \<Rightarrow> string" where
  "upper s = map to_upper s"

definition strip :: "string \<Rightarrow> string" where
  "strip s = rev (dropWhile is_space (rev (dropWhile is_space s)))"

fun split_on :: "char \<Rightarrow> string \<Rightarrow> string list" where
  "split_on d [] = [[]]"
| "split_on d (c # cs) =
     (if c = d then [] # split_on d cs
      else (case split_on d cs of
              [] \<Rightarrow> [[c]]
            | w # ws \<Rightarrow> (c # w) # ws))"

definition split_lines :: "string \<Rightarrow> string list" where
  "split_lines s = split_on (CHR 0x0A) s"

fun split_ws_from :: "string \<Rightarrow> string \<Rightarrow> string list" where
  "split_ws_from cur [] = (if cur = [] then [] else [rev cur])"
| "split_ws_from cur (c # cs) =
     (if is_space c
      then (if cur = [] then split_ws_from [] cs else rev cur # split_ws_from [] cs)
      else split_ws_from (c # cur) cs)"

definition split_ws :: "string \<Rightarrow> string list" where
  "split_ws s = split_ws_from [] s"

definition starts_with :: "string \<Rightarrow> string \<Rightarrow> bool" where
  "starts_with p s = (take (length p) s = p)"

fun contains :: "string \<Rightarrow> string \<Rightarrow> bool" where
  "contains p [] = (p = [])"
| "contains p (c # cs) = (starts_with p (c # cs) \<or> contains p cs)"

text \<open>Truthiness of a cell: \<open>None\<close> and the empty string are falsy; \<^verbatim>\<open>str(cell)\<close> of a
  truthy cell is its text.\<close>

definition cell_text :: "cell \<Rightarrow> string" where
  "cell_text c = (case c of None \<Rightarrow> [] | Some s \<Rightarrow> s)"

definition truthy :: "cell \<Rightarrow> bool" where
  "truthy c = (cell_text c \<noteq> [])"

text \<open>\<^verbatim>\<open>row[i] if i < len(row) else None\<close>.\<close>

definition cell_at :: "row \<Rightarrow> nat \<Rightarrow> cell" where
  "cell_at r i = (if i < length r then r ! i else None)"

text \<open>\<^verbatim>\<open>int(s)\<close> on a run of decimal digits, and \<^verbatim>\<open>str(n)\<close> on an integer. Python's integers
  are unbounded; the interpreter's configurable cap on the length of a digit string that
  \<^verbatim>\<open>int\<close> converts (several thousand digits) is not modelled.\<close>

definition digit_val :: "char \<Rightarrow> int" where
  "digit_val c = int (of_char c) - 48"

definition int_of_digits :: "string \<Rightarrow> int" where
  "int_of_digits ds = foldl (\<lambda>a c. 10 * a + digit_val c) 0 ds"

fun str_nat :: "nat \<Rightarrow> string" where
  "str_nat n = (if n < 10 then [''0123456789'' ! n]
                else str_nat (n div 10) @ [''0123456789'' ! (n mod 10)])"

declare str_nat.simps [simp del]

definition str_int :: "int \<Rightarrow> string" where
  "str_int i = (if i < 0 then CHR ''-'' # str_nat (nat (- i)) else str_nat (nat i))"

section \<open>Regular expressions of the field extractors\<close>

text \<open>
  \<^verbatim>\<open>\b\<close> holds between a previous character and the rest of the text when exactly one
  side is a word character; the ends of the text count as non-word.
\<close>

definition word_opt :: "char option \<Rightarrow> bool" where
  "word_opt p = (case p of None \<Rightarrow> False | Some c \<Rightarrow> is_word c)"

definition next_char :: "string \<Rightarrow> char option" where
  "next_char s = (case s of [] \<Rightarrow> None | c # _ \<Rightarrow> Some c)"

definition boundary :: "char option \<Rightarrow> string \<Rightarrow> bool" where
  "boundary prev rest = (word_opt prev \<noteq> word_opt (next_char rest))"

text \<open>\<^verbatim>\<open>\d{n}\<close> at the head of \<open>s\<close>.\<close>

definition digits_at :: "nat \<Rightarrow> string \<Rightarrow> bool" where
  "digits_at n s = (n \<le> length s \<and> list_all is_digit (take n s))"

definition last_opt :: "string \<Rightarrow> char option" where
  "last_opt s = (if s = [] then None else Some (last s))"

text \<open>\<^verbatim>\<open>re.match(r'^(\d{9})\b', line)\<close>: group 1 when it matches.\<close>

definition match_leading9 :: "string \<Rightarrow> string option" where
  "match_leading9 line =
     (if digits_at 9 line \<and> boundary (last_opt (take 9 line)) (drop 9 line)
      then Some (take 9 line) else None)"

text \<open>The loop over the lines: the first stripped line that matches.\<close>

fun first_leading9 :: "string list \<Rightarrow> string option" where
  "first_leading9 [] = None"
| "first_leading9 (l # ls) =
     (case match_leading9 (strip l) of
        Some g \<Rightarrow> Some g
      | None \<Rightarrow> first_leading9 ls)"

text \<open>\<^verbatim>\<open>re.search(r'\b(\d{9})\b', text)\<close>: the pattern tried at one position, with the
  previous character at hand, and the scan for the leftmost position where it matches.\<close>

definition match9_at :: "char option \<Rightarrow> string \<Rightarrow> string option" where
  "match9_at prev s =
     (if boundary prev s \<and> digits_at 9 s \<and> boundary (last_opt (take 9 s)) (drop 9 s)
      then Some (take 9 s) else None)"

fun search9_from :: "char option \<Rightarrow> string \<Rightarrow> string option" where
  "search9_from prev [] = None"
| "search9_from prev (c # cs) =
     (case match9_at prev (c # cs) of
        Some g \<Rightarrow> Some g
      | None \<Rightarrow> search9_from (Some c) cs)"

definition search9 :: "string \<Rightarrow> string option" where
  "search9 s = search9_from None s"

text \<open>\<^verbatim>\<open>re.search(r'\b(\d{4})-(\d{2})-(\d{3})-(\d{4})\b', text)\<close>: groups 2, 3 and 4
  concatenated, as the caller returns them.\<close>

definition nsn_at :: "string \<Rightarrow> string option" where
  "nsn_at s =
     (if digits_at 4 s \<and> next_char (drop 4 s) = Some (CHR ''-'')
         \<and> digits_at 2 (drop 5 s) \<and> next_char (drop 7 s) = Some (CHR ''-'')
         \<and> digits_at 3 (drop 8 s) \<and> next_char (drop 11 s) = Some (CHR ''-'')
         \<and> digits_at 4 (drop 12 s)
         \<and> boundary (last_opt (take 16 s)) (drop 16 s)
      then Some (take 2 (drop 5 s) @ take 3 (drop 8 s) @ take 4 (drop 12 s))
      else None)"

definition match_nsn_at :: "char option \<Rightarrow> string \<Rightarrow> string option" where
  "match_nsn_at prev s = (if boundary prev s then nsn_at s else None)"

fun search_nsn_from :: "char option \<Rightarrow> string \<Rightarrow> string option" where
  "search_nsn_from prev [] = None"
| "search_nsn_from prev (c # cs) =
     (case match_nsn_at prev (c # cs) of
        Some g \<Rightarrow> Some g
      | None \<Rightarrow> search_nsn_from (Some c) cs)"

definition search_nsn :: "string \<Rightarrow> string option" where
  "search_nsn s = search_nsn_from None s"

text \<open>\<^verbatim>\<open>re.sub(r'\s+', ' ', s)\<close>: every maximal run of white space becomes one blank.\<close>

fun collapse_from :: "bool \<Rightarrow> string \<Rightarrow> string" where
  "collapse_from in_ws [] = []"
| "collapse_from in_ws (c # cs) =
     (if is_space c
      then (if in_ws then collapse_from True cs else CHR 0x20 # collapse_from True cs)
      else c # collapse_from False cs)"

definition collapse_ws :: "string \<Rightarrow> string" where
  "collapse_ws s = collapse_from False s"

text \<open>\<^verbatim>\<open>re.sub(r'[/\\]+\s*$', '', s)\<close>: a final run of slashes, with any white space after
  it, is removed; a text that does not end so is unchanged.\<close>

definition is_slash :: "char \<Rightarrow> bool" where
  "is_slash c = (c = CHR ''/'' \<or> c = CHR 0x5C)"

definition strip_trailing_slashes :: "string \<Rightarrow> string" where
  "strip_trailing_slashes s =
     (let t = dropWhile is_space (rev s)
      in if t \<noteq> [] \<and> is_slash (hd t) then rev (dropWhile is_slash t) else s)"

text \<open>\<^verbatim>\<open>re.sub(r'\s+(WTY|ARC|...|7B)$', '', s, flags=re.IGNORECASE)\<close>: when the text ends
  with white space followed by one of the codes, the code and all the white space before it
  are removed.\<close>

definition trailing_codes :: "string list" where
  "trailing_codes = [''WTY'', ''ARC'', ''CIIC'', ''UI'', ''SCMC'', ''EA'', ''AY'', ''9K'', ''9G'',
                     ''9B'', ''9T'', ''2B'', ''2E'', ''2W'', ''2T'', ''85'', ''7K'', ''7B'']"

definition ends_with_code :: "string \<Rightarrow> string \<Rightarrow> bool" where
  "ends_with_code s code =
     (let r = rev s; n = length code
      in n < length r \<and> upper (rev (take n r)) = code \<and> is_space (r ! n))"

definition strip_trailing_code :: "string \<Rightarrow> string" where
  "strip_trailing_code s =
     (case find (ends_with_code s) trailing_codes of
        None \<Rightarrow> s
      | Some code \<Rightarrow> rev (dropWhile is_space (drop (length code) (rev s))))"

section \<open>Field extractors\<close>

text \<open>\<^verbatim>\<open>extract_nsn_from_material\<close>.\<close>

definition extract_nsn_from_material :: "cell \<Rightarrow> string" where
  "extract_nsn_from_material material_text =
     (if \<not> truthy material_text then []
      else
        let text = strip (cell_text material_text)
        in case first_leading9 (split_lines text) of
             Some g \<Rightarrow> g
           | None \<Rightarrow>
               (case search9 text of
                  Some g \<Rightarrow> g
                | None \<Rightarrow>
                    (case search_nsn text of
                       Some g \<Rightarrow> g
                     | None \<Rightarrow> [])))"

text \<open>\<^verbatim>\<open>extract_quantity\<close>: \<^verbatim>\<open>re.search(r'(\d+)', s)\<close> is the first maximal run of digits. The
  argument is a table cell, as at both call sites.\<close>

definition first_digit_run :: "string \<Rightarrow> string" where
  "first_digit_run s = takeWhile is_digit (dropWhile (\<lambda>c. \<not> is_digit c) s)"

definition extract_quantity :: "cell \<Rightarrow> int" where
  "extract_quantity qty_cell =
     (if \<not> truthy qty_cell then 1
      else
        let qty_str = strip (cell_text qty_cell);
            run = first_digit_run qty_str
        in if run \<noteq> [] then int_of_digits run else 1)"

text \<open>\<^verbatim>\<open>clean_description\<close>.\<close>

definition clean_description :: "cell \<Rightarrow> string" where
  "clean_description desc_text =
     (if \<not> truthy desc_text then []
      else
        let lines = split_lines (strip (cell_text desc_text));
            d0 = (if 2 \<le> length lines then strip (lines ! 1) else strip (lines ! 0));
            d1 = (if CHR ''('' \<in> set d0 then strip (hd (split_on (CHR ''('') d0)) else d0);
            d2 = strip_trailing_code d1
        in strip (collapse_ws d2))"

section \<open>Data model\<close>

datatype BomFormat = GCSS_ARMY_STANDARD | EPP_FORMAT | UNKNOWN

record BomItem =
  line_no :: int
  description :: string
  nsn :: string
  qty :: int
  unit_of_issue :: string
  material_number :: string
  is_editable :: bool
  original_description :: string

text \<open>The constructor call both extractors make: unit of issue \<^verbatim>\<open>"EA"\<close>, the other fields at
  their defaults, and \<^verbatim>\<open>__post_init__\<close> copying the description into the empty
  \<^verbatim>\<open>original_description\<close>.\<close>

definition new_item :: "int \<Rightarrow> string \<Rightarrow> string \<Rightarrow> int \<Rightarrow> BomItem" where
  "new_item n d s q =
     \<lparr>line_no = n, description = d, nsn = s, qty = q, unit_of_issue = ''EA'',
      material_number = [], is_editable = True, original_description = d\<rparr>"

record HeaderInfo =
  packed_by :: string
  num_boxes :: string
  requisition_no :: string
  order_no :: string
  end_item :: string
  date :: string

text \<open>The result of an extraction. Of the metadata only the format tag is kept: the other
  metadata fields are filled by regular-expression searches over the first page's text
  that cannot fail and that no property below reads.\<close>

record ExtractionResult =
  items :: "BomItem list"
  metadata_bom_format :: BomFormat
  warnings :: "string list"
  errors :: "string list"
  pages_processed :: int
  format_detected :: BomFormat

definition empty_result :: ExtractionResult where
  "empty_result =
     \<lparr>items = [], metadata_bom_format = UNKNOWN, warnings = [], errors = [],
      pages_processed = 0, format_detected = UNKNOWN\<rparr>"

section \<open>Format detector\<close>

fun join_blank :: "string list \<Rightarrow> string" where
  "join_blank [] = []"
| "join_blank [x] = x"
| "join_blank (x # y # ys) = x @ CHR 0x20 # join_blank (y # ys)"

text \<open>\<^verbatim>\<open>' '.join(str(cell or '') for cell in header).upper()\<close>.\<close>

definition header_text :: "row \<Rightarrow> string" where
  "header_text header = upper (join_blank (map cell_text header))"

text \<open>The two loops over the tables, each returning at the first non-empty table whose
  header text passes the test.\<close>

fun some_header :: "(string \<Rightarrow> bool) \<Rightarrow> table list \<Rightarrow> bool" where
  "some_header P [] = False"
| "some_header P (t # ts) =
     (if t \<noteq> [] \<and> 0 < length t \<and> P (header_text (hd t)) then True else some_header P ts)"

definition has_lv_marker :: "string \<Rightarrow> bool" where
  "has_lv_marker h = (contains ''LV'' h \<or> contains ''LEVEL'' h)"

definition has_material_description :: "string \<Rightarrow> bool" where
  "has_material_description h = (contains ''MATERIAL'' h \<and> contains ''DESCRIPTION'' h)"

definition detect_bom_format :: "table list \<Rightarrow> string \<Rightarrow> BomFormat" where
  "detect_bom_format tables page_text =
     (case (if contains ''COMPONENT LISTING'' (upper page_text)
               \<or> contains ''HAND RECEIPT'' (upper page_text)
            then (if some_header has_lv_marker tables then Some GCSS_ARMY_STANDARD
                  else if contains ''AUTH'' (upper page_text) \<and> contains ''QTY'' (upper page_text)
                       then Some GCSS_ARMY_STANDARD
                       else None)
            else None) of
        Some f \<Rightarrow> f
      | None \<Rightarrow>
          if contains ''PWR PLANT'' (upper page_text)
             \<or> contains ''OPERATIONAL SUPPORT'' (upper page_text)
          then EPP_FORMAT
          else if some_header has_material_description tables then GCSS_ARMY_STANDARD
          else UNKNOWN)"

section \<open>Column mapper\<close>

record col_indices =
  ix_lv :: "nat option"
  ix_description :: "nat option"
  ix_material :: "nat option"
  ix_auth_qty :: "nat option"
  ix_oh_qty :: "nat option"
  ix_ui :: "nat option"
  ix_image :: "nat option"

definition no_indices :: col_indices where
  "no_indices =
     \<lparr>ix_lv = None, ix_description = None, ix_material = None, ix_auth_qty = None,
      ix_oh_qty = None, ix_ui = None, ix_image = None\<rparr>"

text \<open>One turn of the loop over \<^verbatim>\<open>enumerate(header)\<close>.\<close>

definition map_header_cell :: "col_indices \<Rightarrow> nat \<times> cell \<Rightarrow> col_indices" where
  "map_header_cell indices ic =
     (case ic of (i, cell) \<Rightarrow>
        if \<not> truthy cell then indices
        else
          let text = strip (upper (cell_text cell));
              text_joined = map (\<lambda>c. if c = CHR 0x0A then CHR 0x20 else c) text
          in if text = ''LV'' \<or> text = ''LEVEL'' \<or> ''LV'' \<in> set (split_ws text)
               then indices\<lparr>ix_lv := Some i\<rparr>
             else if contains ''DESC'' text
               then indices\<lparr>ix_description := Some i\<rparr>
             else if contains ''MATERIAL'' text \<or> text = ''MAT''
               then indices\<lparr>ix_material := Some i\<rparr>
             else if (contains ''AUTH'' text_joined \<and> contains ''QTY'' text_joined)
                     \<or> text_joined = ''AUTH QTY''
               then indices\<lparr>ix_auth_qty := Some i\<rparr>
             else if (contains ''OH'' text_joined \<and> contains ''QTY'' text_joined)
                     \<or> text_joined = ''OH QTY''
               then indices\<lparr>ix_oh_qty := Some i\<rparr>
             else if text = ''UI'' \<or> text = ''UNIT''
               then indices\<lparr>ix_ui := Some i\<rparr>
             else if contains ''IMAGE'' text \<or> text = ''IMG''
               then indices\<lparr>ix_image := Some i\<rparr>
             else indices)"

definition find_column_indices :: "row \<Rightarrow> col_indices" where
  "find_column_indices header = foldl map_header_cell no_indices (enumerate 0 header)"

section \<open>Per-format item extractors\<close>

subsection \<open>Standard listing\<close>

text \<open>The secondary scan of the header: the first truthy cell whose upper-cased text
  contains \<^verbatim>\<open>DESC\<close>.\<close>

fun first_desc_col :: "(nat \<times> cell) list \<Rightarrow> nat option" where
  "first_desc_col [] = None"
| "first_desc_col ((i, cell) # rest) =
     (if truthy cell \<and> contains ''DESC'' (upper (cell_text cell)) then Some i
      else first_desc_col rest)"

text \<open>The first line that, stripped, has at least three characters; empty when there is none.\<close>

fun first_long_line :: "string list \<Rightarrow> string" where
  "first_long_line [] = []"
| "first_long_line (l # ls) =
     (if strip l \<noteq> [] \<and> 3 \<le> length (strip l) then strip l else first_long_line ls)"

definition gcss_description :: "cell \<Rightarrow> string" where
  "gcss_description desc_cell =
     (if truthy desc_cell
      then strip_trailing_slashes
             (strip (collapse_ws (first_long_line (split_lines (strip (cell_text desc_cell))))))
      else [])"

definition skip_patterns :: "string list" where
  "skip_patterns = [''COMPONENT OF END ITEM'', ''BASIC ISSUE ITEMS'', ''COEI-'', ''BII-'',
                    ''OPERATIONAL SUPPORT'']"

text \<open>The level test of the standard path: with a level column, the row goes on only when
  its level cell is truthy and reads \<^verbatim>\<open>B\<close> once stripped and upper-cased.\<close>

definition gcss_level_skips :: "col_indices \<Rightarrow> row \<Rightarrow> bool" where
  "gcss_level_skips indices r =
     (case ix_lv indices of
        None \<Rightarrow> False
      | Some l \<Rightarrow> \<not> truthy (cell_at r l) \<or> upper (strip (cell_text (cell_at r l))) \<noteq> ''B'')"

definition row_nsn :: "col_indices \<Rightarrow> row \<Rightarrow> string" where
  "row_nsn indices r =
     (case ix_material indices of
        None \<Rightarrow> []
      | Some m \<Rightarrow> if m < length r then extract_nsn_from_material (r ! m) else [])"

definition gcss_qty :: "col_indices \<Rightarrow> row \<Rightarrow> int" where
  "gcss_qty indices r =
     (case ix_auth_qty indices of
        None \<Rightarrow> 1
      | Some a \<Rightarrow>
          if a < length r
          then (if truthy (r ! a) then extract_quantity (r ! a) else 1)
          else 1)"

text \<open>The body of the loop over the data rows: \<open>None\<close> for every \<^verbatim>\<open>continue\<close>, otherwise the
  description (cut to 100 characters), stock number and quantity of the item appended.
  \<open>d\<close> is the resolved description column.\<close>

definition gcss_row :: "col_indices \<Rightarrow> nat \<Rightarrow> row \<Rightarrow> (string \<times> string \<times> int) option" where
  "gcss_row indices d r =
     (if \<not> list_ex truthy r then None
      else if gcss_level_skips indices r then None
      else
        let description = gcss_description (cell_at r d)
        in if description = [] \<or> length description < 3 then None
           else if list_ex (\<lambda>pat. contains pat (upper description)) skip_patterns then None
           else Some (take 100 description, row_nsn indices r, gcss_qty indices r))"

definition append_item :: "BomItem list \<Rightarrow> (string \<times> string \<times> int) option \<Rightarrow> BomItem list" where
  "append_item its e =
     (case e of
        None \<Rightarrow> its
      | Some (d, s, q) \<Rightarrow> its @ [new_item (int (length its) + 1) d s q])"

definition gcss_table :: "BomItem list \<Rightarrow> table \<Rightarrow> BomItem list" where
  "gcss_table its t =
     (if t = [] \<or> length t < 2 then its
      else
        let header = hd t;
            indices0 = find_column_indices header;
            indices = (if ix_description indices0 = None
                       then indices0\<lparr>ix_description := first_desc_col (enumerate 0 header)\<rparr>
                       else indices0)
        in case ix_description indices of
             None \<Rightarrow> its
           | Some d \<Rightarrow> foldl (\<lambda>acc r. append_item acc (gcss_row indices d r)) its (tl t))"

definition extract_items_gcss_standard :: "table list \<Rightarrow> BomItem list" where
  "extract_items_gcss_standard tables = foldl gcss_table [] tables"

subsection \<open>Equipment property record\<close>

text \<open>The secondary scan here has no \<^verbatim>\<open>break\<close>: the last matching cell wins.\<close>

definition last_descr_col :: "(nat \<times> cell) list \<Rightarrow> nat option" where
  "last_descr_col cells =
     foldl (\<lambda>acc ic. case ic of (i, cell) \<Rightarrow>
              if truthy cell \<and> (contains ''DESCR'' (upper (cell_text cell))
                                 \<or> upper (cell_text cell) = ''DESC'')
              then Some i else acc) None cells"

definition epp_level_skips :: "col_indices \<Rightarrow> row \<Rightarrow> bool" where
  "epp_level_skips indices r =
     (case ix_lv indices of
        None \<Rightarrow> False
      | Some l \<Rightarrow> truthy (cell_at r l) \<and> upper (strip (cell_text (cell_at r l))) = ''A'')"

definition epp_categories :: "string list" where
  "epp_categories = [''COMPONENT OF END ITEM'', ''BASIC ISSUE ITEMS'', ''OPERATIONAL SUPPORT'',
                     ''COEI'', ''BII'']"

definition epp_qty :: "col_indices \<Rightarrow> row \<Rightarrow> int" where
  "epp_qty indices r =
     (case ix_auth_qty indices of
        None \<Rightarrow> 1
      | Some a \<Rightarrow> if a < length r then extract_quantity (r ! a) else 1)"

definition epp_row :: "col_indices \<Rightarrow> nat \<Rightarrow> row \<Rightarrow> (string \<times> string \<times> int) option" where
  "epp_row indices d r =
     (if \<not> list_ex truthy r then None
      else if epp_level_skips indices r then None
      else
        let description = clean_description (cell_at r d)
        in if description = [] then None
           else if upper description \<in> set epp_categories then None
           else Some (take 100 description, row_nsn indices r, epp_qty indices r))"

definition epp_table :: "BomItem list \<Rightarrow> table \<Rightarrow> BomItem list" where
  "epp_table its t =
     (if t = [] \<or> length t < 2 then its
      else
        let header = hd t;
            indices0 = find_column_indices header;
            indices = (if ix_description indices0 = None
                       then (case last_descr_col (enumerate 0 header) of
                               None \<Rightarrow> indices0
                             | Some i \<Rightarrow> indices0\<lparr>ix_description := Some i\<rparr>)
                       else indices0)
        in case ix_description indices of
             None \<Rightarrow> its
           | Some d \<Rightarrow> foldl (\<lambda>acc r. append_item acc (epp_row indices d r)) its (tl t))"

text \<open>The page text is an argument the extractor never reads.\<close>

definition extract_items_epp_format :: "table list \<Rightarrow> string \<Rightarrow> BomItem list" where
  "extract_items_epp_format tables page_text = foldl epp_table [] tables"

section \<open>Extraction orchestrator\<close>

text \<open>
  The document reader is outside the program. What the orchestrator can observe of it:
  opening the document raises (with a message) or gives the list of pages; reading a page
  (its tables and its text, the text possibly \<open>None\<close>) raises or gives both.
\<close>

datatype page_read = PageRaises string | PageOk "table list" "string option"

datatype pdf_source = OpenRaises string | Opened "page_read list"

text \<open>Python's \<^verbatim>\<open>xs[i]\<close> and \<^verbatim>\<open>xs[i:]\<close> for an integer \<open>i\<close>: negative indices count from the
  end, an index out of range raises \<^verbatim>\<open>IndexError\<close> (here \<open>None\<close>), a slice never raises.\<close>

definition py_index :: "'a list \<Rightarrow> int \<Rightarrow> 'a option" where
  "py_index xs i =
     (if 0 \<le> i \<and> i < int (length xs) then Some (xs ! nat i)
      else if i < 0 \<and> - int (length xs) \<le> i then Some (xs ! nat (int (length xs) + i))
      else None)"

definition py_slice_from :: "'a list \<Rightarrow> int \<Rightarrow> 'a list" where
  "py_slice_from xs i =
     (if 0 \<le> i then drop (nat i) xs else drop (nat (max 0 (int (length xs) + i))) xs)"

text \<open>The dispatch on the detected format, with the fallback chain for \<open>UNKNOWN\<close>.\<close>

definition page_items :: "BomFormat \<Rightarrow> table list \<Rightarrow> string \<Rightarrow> BomItem list" where
  "page_items fmt tables page_text =
     (case fmt of
        GCSS_ARMY_STANDARD \<Rightarrow> extract_items_gcss_standard tables
      | EPP_FORMAT \<Rightarrow> extract_items_epp_format tables page_text
      | UNKNOWN \<Rightarrow>
          (let its = extract_items_gcss_standard tables
           in if its = [] then extract_items_epp_format tables page_text else its))"

text \<open>The loop over the pages. It carries the count of pages processed and the items
  gathered so far, and stops with the message of the exception when a page cannot be read;
  the count has already been raised for that page.\<close>

fun page_loop ::
  "BomFormat \<Rightarrow> page_read list \<Rightarrow> int \<Rightarrow> BomItem list \<Rightarrow> string option \<times> int \<times> BomItem list"
where
  "page_loop fmt [] n all_items = (None, n, all_items)"
| "page_loop fmt (PageRaises msg # ps) n all_items = (Some msg, n + 1, all_items)"
| "page_loop fmt (PageOk tables text # ps) n all_items =
     page_loop fmt ps (n + 1) (all_items @ page_items fmt tables (cell_text text))"

text \<open>\<^verbatim>\<open>for i, item in enumerate(all_items): item.line_no = i + 1\<close>.\<close>

definition renumber :: "BomItem list \<Rightarrow> BomItem list" where
  "renumber all_items =
     map (\<lambda>ii. case ii of (i, item) \<Rightarrow> item\<lparr>line_no := int i + 1\<rparr>) (enumerate 0 all_items)"

definition failed :: "ExtractionResult \<Rightarrow> string \<Rightarrow> ExtractionResult" where
  "failed result msg = result\<lparr>errors := errors result @ [''Failed to process PDF: '' @ msg]\<rparr>"

definition start_page_message :: "int \<Rightarrow> nat \<Rightarrow> string" where
  "start_page_message start_page n =
     ''Start page '' @ str_int start_page @ '' exceeds document length (''
       @ str_int (int n) @ '' pages)''"

definition no_items_warning :: string where
  "no_items_warning = ''No items extracted. Ensure the PDF is a GCSS-Army BOM format.''"

definition extract_items_from_pdf :: "pdf_source \<Rightarrow> int \<Rightarrow> ExtractionResult" where
  "extract_items_from_pdf src start_page =
     (case src of
        OpenRaises msg \<Rightarrow> failed empty_result msg
      | Opened pages \<Rightarrow>
          if int (length pages) \<le> start_page
          then empty_result\<lparr>errors := [start_page_message start_page (length pages)]\<rparr>
          else
            (case py_index pages start_page of
               None \<Rightarrow> failed empty_result ''list index out of range''
             | Some (PageRaises msg) \<Rightarrow> failed empty_result msg
             | Some (PageOk first_tables first_text) \<Rightarrow>
                 let fmt = detect_bom_format first_tables (cell_text first_text);
                     result = empty_result\<lparr>format_detected := fmt, metadata_bom_format := fmt\<rparr>
                 in case page_loop fmt (py_slice_from pages start_page) 0 [] of
                      (Some msg, n, all_items) \<Rightarrow> failed (result\<lparr>pages_processed := n\<rparr>) msg
                    | (None, n, all_items) \<Rightarrow>
                        let result' = result\<lparr>pages_processed := n, items := renumber all_items\<rparr>
                        in if items result' = []
                           then result'\<lparr>warnings := warnings result' @ [no_items_warning]\<rparr>
                           else result'))"

text \<open>For the statements about the orchestrator: whether reading a page raises, and the
  records one readable page contributes under a given format.\<close>

definition raises :: "page_read \<Rightarrow> bool" where
  "raises p = (case p of PageRaises msg \<Rightarrow> True | PageOk tables text \<Rightarrow> False)"

definition read_items :: "BomFormat \<Rightarrow> page_read \<Rightarrow> BomItem list" where
  "read_items fmt p =
     (case p of
        PageRaises msg \<Rightarrow> []
      | PageOk tables text \<Rightarrow> page_items fmt tables (cell_text text))"

section \<open>Layout and pagination engine\<close>

text \<open>
  The output document as the writer is told to build it. A page is the blank template,
  with the overlay merged onto it when there is one, and the widget annotations added to
  it. An overlay holds the two page stamps and, per table row drawn, the index of the row
  (which fixes its vertical position, \<^verbatim>\<open>Y_TABLE_TOP - i * ROW_H\<close>) and the seven texts. The
  coordinates themselves are floating-point constants and are not part of the model.
\<close>

definition ROWS_PER_PAGE :: nat where
  "ROWS_PER_PAGE = 18"

record overlay_row =
  row_index :: nat
  box_text :: string
  desc_text :: string
  nsn_text :: "string option"
  uoi_text :: string
  init_text :: string
  spares_text :: string
  total_text :: string

record overlay =
  stamp_page :: string
  stamp_total :: string
  ov_rows :: "overlay_row list"

record form_field =
  ff_name :: string
  ff_rect :: "int \<times> int \<times> int \<times> int"
  ff_tooltip :: string
  ff_F :: nat
  ff_Ff :: nat
  ff_DA :: string
  ff_V :: string
  ff_DV :: string

record pdf_page =
  page_overlay :: "overlay option"
  page_annots :: "form_field list"

record pdf_doc =
  doc_pages :: "pdf_page list"
  acro_form :: "form_field list option"

definition draw_row :: "nat \<times> BomItem \<Rightarrow> overlay_row" where
  "draw_row ii =
     (case ii of (i, item) \<Rightarrow>
        \<lparr>row_index = i,
         box_text = str_int (line_no item),
         desc_text = (if 55 < length (description item) then take 55 (description item)
                      else description item),
         nsn_text = (if nsn item \<noteq> [] then Some (''NSN: '' @ nsn item) else None),
         uoi_text = ''EA'',
         init_text = str_int (qty item),
         spares_text = ''0'',
         total_text = str_int (qty item)\<rparr>)"

text \<open>\<^verbatim>\<open>generate_dd1750_overlay\<close>; the header argument is accepted and not read.\<close>

definition generate_dd1750_overlay ::
  "BomItem list \<Rightarrow> int \<Rightarrow> int \<Rightarrow> HeaderInfo option \<Rightarrow> overlay" where
  "generate_dd1750_overlay its page_num total_pages header =
     \<lparr>stamp_page = str_int page_num,
      stamp_total = str_int total_pages,
      ov_rows = map draw_row (enumerate 0 its)\<rparr>"

text \<open>\<^verbatim>\<open>math.ceil(len(items) / ROWS_PER_PAGE)\<close>, computed on the naturals; the source goes
  through a floating-point quotient, which is exact for every list length a machine can
  hold.\<close>

definition ceil_div :: "nat \<Rightarrow> nat \<Rightarrow> nat" where
  "ceil_div n d = (if n mod d = 0 then n div d else n div d + 1)"

definition form_field_defs :: "(string \<times> (int \<times> int \<times> int \<times> int) \<times> string) list" where
  "form_field_defs =
     [(''packed_by'', (92, 732, 230, 746), ''Packed By''),
      (''no_boxes'', (282, 732, 332, 746), ''Number of Boxes''),
      (''req_no'', (405, 732, 566, 746), ''Requisition Number''),
      (''order_no'', (405, 712, 566, 726), ''Order Number''),
      (''end_item'', (92, 689, 370, 703), ''End Item''),
      (''date'', (447, 689, 566, 703), ''Date''),
      (''typed_name'', (92, 46, 290, 60), ''Typed Name and Title'')]"

definition make_field :: "string \<times> (int \<times> int \<times> int \<times> int) \<times> string \<Rightarrow> form_field" where
  "make_field field_def =
     (case field_def of (name, rect, tooltip) \<Rightarrow>
        \<lparr>ff_name = name, ff_rect = rect, ff_tooltip = tooltip, ff_F = 4, ff_Ff = 0,
         ff_DA = ''/Helv 9 Tf 0 g'', ff_V = [], ff_DV = []\<rparr>)"

text \<open>The slice \<^verbatim>\<open>items[start_idx:end_idx]\<close> of one turn of the pagination loop, and the page
  built from it: its overlay, merged onto a fresh copy of the template.\<close>

definition page_slice :: "BomItem list \<Rightarrow> nat \<Rightarrow> BomItem list" where
  "page_slice its page_num =
     drop (page_num * ROWS_PER_PAGE)
          (take (min ((page_num + 1) * ROWS_PER_PAGE) (length its)) its)"

definition content_page :: "BomItem list \<Rightarrow> nat \<Rightarrow> HeaderInfo option \<Rightarrow> nat \<Rightarrow> pdf_page" where
  "content_page its total_pages header page_num =
     \<lparr>page_overlay =
        Some (generate_dd1750_overlay (page_slice its page_num) (int page_num + 1)
                (int total_pages) header),
      page_annots = []\<rparr>"

text \<open>The loop adding each widget to the annotations of \<^verbatim>\<open>writer.pages[0]\<close> and to the
  fields of the form.\<close>

definition add_field :: "pdf_doc \<Rightarrow> form_field \<Rightarrow> pdf_doc" where
  "add_field doc f =
     doc\<lparr>doc_pages :=
           (case doc_pages doc of
              [] \<Rightarrow> []
            | p # ps \<Rightarrow> p\<lparr>page_annots := page_annots p @ [f]\<rparr> # ps),
         acro_form :=
           (case acro_form doc of
              None \<Rightarrow> None
            | Some fs \<Rightarrow> Some (fs @ [f]))\<rparr>"

text \<open>\<^verbatim>\<open>generate_dd1750_from_items\<close>: the document written and the item count returned. The
  template is taken to be readable and the output writable; a failure of either leaves
  the function through an exception and is not modelled.\<close>

definition generate_dd1750_from_items ::
  "BomItem list \<Rightarrow> HeaderInfo option \<Rightarrow> pdf_doc \<times> int" where
  "generate_dd1750_from_items its header =
     (if its = []
      then (\<lparr>doc_pages = [\<lparr>page_overlay = None, page_annots = []\<rparr>], acro_form = None\<rparr>, 0)
      else
        let total_pages = ceil_div (length its) ROWS_PER_PAGE;
            pages = map (content_page its total_pages header) [0..<total_pages];
            doc = \<lparr>doc_pages = pages, acro_form = Some []\<rparr>
        in (foldl add_field doc (map make_field form_field_defs), int (length its)))"

section \<open>Sample inputs\<close>

text \<open>Concrete inputs at which the statements below are evaluated.\<close>

definition sample_items :: "BomItem list" where
  "sample_items = replicate 19 (new_item 1 ''BOLT'' ''002643796'' 2)"

definition sample_header :: HeaderInfo where
  "sample_header =
     \<lparr>packed_by = ''SGT DOE'', num_boxes = ''2'', requisition_no = ''R-1'', order_no = ''O-1'',
      end_item = ''TRUCK'', date = ''2024-01-01''\<rparr>"

definition sample_pages :: "page_read list" where
  "sample_pages =
     [PageOk [[[Some ''LV'', Some ''Description'', Some ''Auth Qty''],
               [Some ''B'', Some ''BOLT, HEX'', Some ''4''],
               [Some ''A'', Some ''COMPONENT OF END ITEM'', None]]]
             (Some ''COMPONENT LISTING''),
      PageOk [[[Some ''LV'', Some ''Description'', Some ''Auth Qty''],
               [Some ''B'', Some ''NUT, PLAIN'', Some ''2'']]]
             None]"


definition sample_unknown_pages :: "page_read list" where
  "sample_unknown_pages =
     [PageOk [[[Some ''LV'', Some ''Description''],
               [Some ''C'', Some ''first line\<newline>BOLT, HEX'']]] None]"

definition sample_header_row :: row where
  "sample_header_row = [Some ''LV'', Some ''Description'', Some ''Auth Qty'', Some ''OH Qty'']"

definition sample_rows :: "row list" where
  "sample_rows = [[Some ''A'', Some ''BASIC ISSUE ITEMS'', None, None],
                  [Some ''B'', Some ''BOLT, HEX'', Some ''3 EA'', Some ''9'']]"

section \<open>Stock-number extraction\<close>

















section \<open>Quantity extraction\<close>



















section \<open>Format detection\<close>

lemma starts_with_iff: "starts_with p s \<longleftrightarrow> (\<exists>b. s = p @ b)"
proof
  assume "starts_with p s"
  then have "s = p @ drop (length p) s"
    using append_take_drop_id[of "length p" s] by (simp add: starts_with_def)
  then show "\<exists>b. s = p @ b" ..
next
  assume "\<exists>b. s = p @ b"
  then show "starts_with p s" by (auto simp: starts_with_def)
qed

lemma contains_iff: "contains p s \<longleftrightarrow> (\<exists>a b. s = a @ p @ b)"
proof (induction s)
  case Nil
  then show ?case by simp
next
  case (Cons c cs)
  show ?case
  proof
    assume "contains p (c # cs)"
    then consider "starts_with p (c # cs)" | "contains p cs" by auto
    then show "\<exists>a b. c # cs = a @ p @ b"
    proof cases
      case 1
      then obtain b where "c # cs = p @ b" using starts_with_iff by blast
      then have "c # cs = [] @ p @ b" by simp
      then show ?thesis by blast
    next
      case 2
      then obtain a b where "cs = a @ p @ b" using Cons.IH by blast
      then have "c # cs = (c # a) @ p @ b" by simp
      then show ?thesis by blast
    qed
  next
    assume "\<exists>a b. c # cs = a @ p @ b"
    then obtain a b where ab: "c # cs = a @ p @ b" by blast
    show "contains p (c # cs)"
    proof (cases a)
      case Nil
      then have "starts_with p (c # cs)" using ab starts_with_iff by auto
      then show ?thesis by simp
    next
      case (Cons x a')
      then have "cs = a' @ p @ b" using ab by simp
      then have "contains p cs" using Cons.IH by blast
      then show ?thesis by simp
    qed
  qed
qed

lemma contains_upper: "contains p s \<Longrightarrow> contains (upper p) (upper s)"
proof -
  assume "contains p s"
  then obtain a b where "s = a @ p @ b" using contains_iff by blast
  then have "upper s = upper a @ upper p @ upper b" by (simp add: upper_def)
  then show ?thesis using contains_iff by blast
qed

lemma contains_append: "contains p x \<Longrightarrow> contains p (u @ x @ v)"
proof -
  assume "contains p x"
  then obtain a b where "x = a @ p @ b" using contains_iff by blast
  then have "u @ x @ v = (u @ a) @ p @ (b @ v)" by simp
  then show ?thesis using contains_iff by blast
qed

lemma join_blank_member: "x \<in> set xs \<Longrightarrow> \<exists>u v. join_blank xs = u @ x @ v"
proof (induction xs rule: join_blank.induct)
  case 1
  then show ?case by simp
next
  case (2 y)
  then have "join_blank [y] = [] @ x @ []" by simp
  then show ?case by blast
next
  case (3 y z zs)
  show ?case
  proof (cases "x = y")
    case True
    then have "join_blank (y # z # zs) = [] @ x @ (CHR 0x20 # join_blank (z # zs))" by simp
    then show ?thesis by blast
  next
    case False
    then have "x \<in> set (z # zs)" using "3.prems" by simp
    then obtain u v where "join_blank (z # zs) = u @ x @ v" using "3.IH" by blast
    then have "join_blank (y # z # zs) = (y @ CHR 0x20 # u) @ x @ v" by simp
    then show ?thesis by blast
  qed
qed

lemma header_text_contains:
  assumes "Some c \<in> set h" and "contains p c"
  shows "contains (upper p) (header_text h)"
proof -
  have "c \<in> set (map cell_text h)"
    using assms(1) by (force simp: cell_text_def)
  then obtain u v where "join_blank (map cell_text h) = u @ c @ v"
    using join_blank_member by blast
  then have "contains p (join_blank (map cell_text h))"
    using contains_append[OF assms(2)] by simp
  then show ?thesis unfolding header_text_def by (rule contains_upper)
qed

lemma some_header_iff:
  "some_header P ts \<longleftrightarrow> list_ex (\<lambda>t. t \<noteq> [] \<and> P (header_text (hd t))) ts"
  by (induction ts) auto

lemma detect_cascade:
  "detect_bom_format tables text =
     (if (contains ''COMPONENT LISTING'' (upper text) \<or> contains ''HAND RECEIPT'' (upper text))
         \<and> list_ex (\<lambda>t. t \<noteq> [] \<and> has_lv_marker (header_text (hd t))) tables
      then GCSS_ARMY_STANDARD
      else if (contains ''COMPONENT LISTING'' (upper text) \<or> contains ''HAND RECEIPT'' (upper text))
              \<and> contains ''AUTH'' (upper text) \<and> contains ''QTY'' (upper text)
      then GCSS_ARMY_STANDARD
      else if contains ''PWR PLANT'' (upper text) \<or> contains ''OPERATIONAL SUPPORT'' (upper text)
      then EPP_FORMAT
      else if list_ex (\<lambda>t. t \<noteq> [] \<and> has_material_description (header_text (hd t))) tables
      then GCSS_ARMY_STANDARD
      else UNKNOWN)"
  by (simp add: detect_bom_format_def some_header_iff)

lemma upper_lits: "upper ''COMPONENT LISTING'' = ''COMPONENT LISTING''" "upper ''LV'' = ''LV''"
  by (simp_all add: upper_def to_upper_def)

lemma detect_lv_listing:
  assumes "contains ''COMPONENT LISTING'' text" and "h # rows \<in> set tables"
    and "Some c \<in> set h" and "contains ''LV'' c"
  shows "detect_bom_format tables text = GCSS_ARMY_STANDARD"
proof -
  have l: "contains ''COMPONENT LISTING'' (upper text)"
    using contains_upper[OF assms(1)] by (simp only: upper_lits)
  have "contains ''LV'' (header_text h)"
    using header_text_contains[OF assms(3,4)] by (simp only: upper_lits)
  then have "has_lv_marker (header_text (hd (h # rows)))" by (simp add: has_lv_marker_def)
  then have "list_ex (\<lambda>t. t \<noteq> [] \<and> has_lv_marker (header_text (hd t))) tables"
    using assms(2) unfolding list_ex_iff by blast
  then show ?thesis using l by (simp add: detect_cascade)
qed

lemma detect_no_markers:
  assumes "\<not> contains ''COMPONENT LISTING'' (upper text)"
    and "\<not> contains ''HAND RECEIPT'' (upper text)"
    and "\<not> contains ''PWR PLANT'' (upper text)"
    and "\<not> contains ''OPERATIONAL SUPPORT'' (upper text)"
    and "\<not> list_ex (\<lambda>t. t \<noteq> [] \<and> has_material_description (header_text (hd t))) tables"
  shows "detect_bom_format tables text = UNKNOWN"
  using assms by (simp add: detect_cascade)

text \<open>
  Claim C6. Format detection is a total function that applies its rules in priority
  order: (1) a listing or hand-receipt marker in the page text together with a level
  marker in the header row of some table gives the standard listing; (2) a listing marker
  together with both \<^verbatim>\<open>AUTH\<close> and \<^verbatim>\<open>QTY\<close> in the text gives the standard listing; (3) an
  equipment-property-record marker in the text gives that format; (4) a header row with
  both a material and a description marker gives the standard listing; (5) otherwise the
  format is unknown. So a page whose text contains \<^verbatim>\<open>COMPONENT LISTING\<close> and one of whose
  header cells contains \<^verbatim>\<open>LV\<close> is a standard listing, and a page with none of the markers
  and no material/description header is unknown.
\<close>

theorem detect_bom_format_priority:
  "detect_bom_format tables text =
     (if (contains ''COMPONENT LISTING'' (upper text) \<or> contains ''HAND RECEIPT'' (upper text))
         \<and> list_ex (\<lambda>t. t \<noteq> [] \<and> has_lv_marker (header_text (hd t))) tables
      then GCSS_ARMY_STANDARD
      else if (contains ''COMPONENT LISTING'' (upper text) \<or> contains ''HAND RECEIPT'' (upper text))
              \<and> contains ''AUTH'' (upper text) \<and> contains ''QTY'' (upper text)
      then GCSS_ARMY_STANDARD
      else if contains ''PWR PLANT'' (upper text) \<or> contains ''OPERATIONAL SUPPORT'' (upper text)
      then EPP_FORMAT
      else if list_ex (\<lambda>t. t \<noteq> [] \<and> has_material_description (header_text (hd t))) tables
      then GCSS_ARMY_STANDARD
      else UNKNOWN)
   \<and> (contains ''COMPONENT LISTING'' text \<and> h # rows \<in> set tables
        \<and> Some c \<in> set h \<and> contains ''LV'' c
        \<longrightarrow> detect_bom_format tables text = GCSS_ARMY_STANDARD)
   \<and> (\<not> contains ''COMPONENT LISTING'' (upper text)
        \<and> \<not> contains ''HAND RECEIPT'' (upper text)
        \<and> \<not> contains ''PWR PLANT'' (upper text)
        \<and> \<not> contains ''OPERATIONAL SUPPORT'' (upper text)
        \<and> \<not> list_ex (\<lambda>t. t \<noteq> [] \<and> has_material_description (header_text (hd t))) tables
        \<longrightarrow> detect_bom_format tables text = UNKNOWN)"
  using detect_cascade[of tables "text"] detect_lv_listing[of "text" h rows tables c]
    detect_no_markers[of "text" tables]
  by blast

theorem detect_bom_format_priority_witness:
  "detect_bom_format [[[Some ''Material'', Some ''LV'', Some ''Description'']]]
       ''GCSS-Army COMPONENT LISTING'' = GCSS_ARMY_STANDARD
   \<and> detect_bom_format [[[Some ''Qty'']]] ''Inventory'' = UNKNOWN"
proof -
  have a: "contains ''COMPONENT LISTING'' ''GCSS-Army COMPONENT LISTING''
           \<and> [Some ''Material'', Some ''LV'', Some ''Description''] # []
               \<in> set [[[Some ''Material'', Some ''LV'', Some ''Description'']]]
           \<and> Some ''LV'' \<in> set [Some ''Material'', Some ''LV'', Some ''Description'']
           \<and> contains ''LV'' ''LV''"
    by (simp add: starts_with_def)
  have b: "\<not> contains ''COMPONENT LISTING'' (upper ''Inventory'')
        \<and> \<not> contains ''HAND RECEIPT'' (upper ''Inventory'')
        \<and> \<not> contains ''PWR PLANT'' (upper ''Inventory'')
        \<and> \<not> contains ''OPERATIONAL SUPPORT'' (upper ''Inventory'')
        \<and> \<not> list_ex (\<lambda>t. t \<noteq> [] \<and> has_material_description (header_text (hd t)))
               [[[Some ''Qty'']]]"
    by (simp add: starts_with_def upper_def to_upper_def has_material_description_def
          header_text_def cell_text_def)
  from detect_bom_format_priority[THEN conjunct2, THEN conjunct1, rule_format, OF a]
    detect_bom_format_priority[THEN conjunct2, THEN conjunct2, rule_format, OF b]
  show ?thesis by (rule conjI)
qed

section \<open>Pagination\<close>

lemma foldl_add_field:
  "doc_pages doc = p # ps \<Longrightarrow>
   foldl add_field doc fs =
     doc\<lparr>doc_pages := p\<lparr>page_annots := page_annots p @ fs\<rparr> # ps,
         acro_form := map_option (\<lambda>x. x @ fs) (acro_form doc)\<rparr>"
proof (induction fs arbitrary: doc p)
  case Nil
  then show ?case by (cases "acro_form doc") (simp_all add: option.map_ident)
next
  case (Cons f fs)
  have "doc_pages (add_field doc f) = p\<lparr>page_annots := page_annots p @ [f]\<rparr> # ps"
    using Cons.prems by (simp add: add_field_def)
  from Cons.IH[OF this] show ?case
    using Cons.prems by (cases "acro_form doc") (simp_all add: add_field_def)
qed

lemma ceil_div_pos: "0 < n \<Longrightarrow> 0 < ceil_div n ROWS_PER_PAGE"
  by (simp add: ceil_div_def ROWS_PER_PAGE_def) presburger




lemma generated_pages:
  assumes "its \<noteq> []"
  shows "doc_pages (fst (generate_dd1750_from_items its header)) =
           (content_page its (ceil_div (length its) ROWS_PER_PAGE) header 0)
              \<lparr>page_annots := map make_field form_field_defs\<rparr>
           # map (content_page its (ceil_div (length its) ROWS_PER_PAGE) header)
                 [Suc 0..<ceil_div (length its) ROWS_PER_PAGE]"
    and "acro_form (fst (generate_dd1750_from_items its header)) = Some (map make_field form_field_defs)"
    and "snd (generate_dd1750_from_items its header) = int (length its)"
proof -
  let ?t = "ceil_div (length its) ROWS_PER_PAGE"
  let ?cp = "content_page its ?t header"
  have "0 < ?t" using assms by (simp add: ceil_div_pos)
  then have up: "[0..<?t] = 0 # [Suc 0..<?t]" by (simp add: upt_conv_Cons)
  have pg: "map ?cp [0..<?t] = ?cp 0 # map ?cp [Suc 0..<?t]" by (simp add: up)
  have an: "page_annots (?cp 0) = []" by (simp add: content_page_def)
  have g: "generate_dd1750_from_items its header =
        (foldl add_field \<lparr>doc_pages = ?cp 0 # map ?cp [Suc 0..<?t], acro_form = Some []\<rparr>
           (map make_field form_field_defs), int (length its))"
    using assms by (simp add: generate_dd1750_from_items_def Let_def pg)
  have f: "foldl add_field \<lparr>doc_pages = ?cp 0 # map ?cp [Suc 0..<?t], acro_form = Some []\<rparr>
           (map make_field form_field_defs) =
         \<lparr>doc_pages = (?cp 0)\<lparr>page_annots := map make_field form_field_defs\<rparr> # map ?cp [Suc 0..<?t],
          acro_form = Some (map make_field form_field_defs)\<rparr>"
    by (subst foldl_add_field[where p = "?cp 0" and ps = "map ?cp [Suc 0..<?t]"]) (simp_all add: an)
  show "doc_pages (fst (generate_dd1750_from_items its header)) =
           (?cp 0)\<lparr>page_annots := map make_field form_field_defs\<rparr> # map ?cp [Suc 0..<?t]"
    by (simp add: g f)
  show "acro_form (fst (generate_dd1750_from_items its header)) = Some (map make_field form_field_defs)"
    by (simp add: g f)
  show "snd (generate_dd1750_from_items its header) = int (length its)"
    by (simp add: g)
qed











section \<open>Header form fields\<close>

lemma content_page_header: "content_page its tp header = content_page its tp None"
  by (rule ext) (simp add: content_page_def generate_dd1750_overlay_def)

lemma generate_header_unread:
  "generate_dd1750_from_items its header = generate_dd1750_from_items its None"
  by (simp add: generate_dd1750_from_items_def Let_def content_page_header[of _ _ header])

lemma content_page_annots: "page_annots (content_page its tp header p) = []"
  by (simp add: content_page_def)

lemma generated_annots:
  assumes "its \<noteq> []"
  shows "map page_annots (doc_pages (fst (generate_dd1750_from_items its header))) =
           map make_field form_field_defs
           # replicate (ceil_div (length its) ROWS_PER_PAGE - 1) []"
  by (simp add: generated_pages(1)[OF assms] content_page_annots o_def map_replicate_const)

lemma field_names:
  "map ff_name (map make_field form_field_defs) =
     [''packed_by'', ''no_boxes'', ''req_no'', ''order_no'', ''end_item'', ''date'', ''typed_name'']"
  by (simp add: form_field_defs_def make_field_def)

lemma field_flags:
  "list_all (\<lambda>f. ff_V f = [] \<and> ff_DV f = [] \<and> ff_Ff f = 0 \<and> ff_F f = 4)
     (map make_field form_field_defs)"
  by (simp add: form_field_defs_def make_field_def)

text \<open>
  Claim C1, as stated, has each field pre-populated from the supplied HeaderInfo. With a
  HeaderInfo whose fields are all non-empty, every one of the seven fields on the first
  page still has the empty value.
\<close>

theorem form_fields_prepopulated_counterexample:
  "packed_by sample_header = ''SGT DOE''
   \<and> map (\<lambda>f. (ff_name f, ff_V f))
         (page_annots (hd (doc_pages (fst (generate_dd1750_from_items sample_items
                                              (Some sample_header))))))
       = [(''packed_by'', []), (''no_boxes'', []), (''req_no'', []), (''order_no'', []),
          (''end_item'', []), (''date'', []), (''typed_name'', [])]"
  by (simp add: generated_pages(1) sample_items_def sample_header_def form_field_defs_def
        make_field_def)

text \<open>
  Claim C1, amended. For every generated document with at least one item, the seven named,
  positioned text fields (packed-by, box count, requisition number, order number, end
  item, date, signer name) are attached to the first output page only and registered in
  the document's form; each is created with an empty value and an empty default value
  whether or not a HeaderInfo is supplied, since the HeaderInfo is never read; each has
  field flags 0 (editable) and annotation flags 4 (print).
\<close>

theorem form_fields_first_page_blank:
  "its \<noteq> [] \<longrightarrow>
     map page_annots (doc_pages (fst (generate_dd1750_from_items its header)))
       = map make_field form_field_defs # replicate (ceil_div (length its) ROWS_PER_PAGE - 1) []
     \<and> acro_form (fst (generate_dd1750_from_items its header))
         = Some (map make_field form_field_defs)
     \<and> map ff_name (map make_field form_field_defs)
         = [''packed_by'', ''no_boxes'', ''req_no'', ''order_no'', ''end_item'', ''date'',
            ''typed_name'']
     \<and> list_all (\<lambda>f. ff_V f = [] \<and> ff_DV f = [] \<and> ff_Ff f = 0 \<and> ff_F f = 4)
          (map make_field form_field_defs)
     \<and> generate_dd1750_from_items its header = generate_dd1750_from_items its None"
  using generated_annots[of its header] generated_pages(2)[of its header] field_names field_flags
    generate_header_unread[of its header]
  by blast

theorem form_fields_first_page_blank_witness:
  "map page_annots (doc_pages (fst (generate_dd1750_from_items sample_items (Some sample_header))))
     = map make_field form_field_defs
       # replicate (ceil_div (length sample_items) ROWS_PER_PAGE - 1) []
   \<and> acro_form (fst (generate_dd1750_from_items sample_items (Some sample_header)))
       = Some (map make_field form_field_defs)
   \<and> generate_dd1750_from_items sample_items (Some sample_header)
       = generate_dd1750_from_items sample_items None
   \<and> ceil_div (length sample_items) ROWS_PER_PAGE - 1 = 1"
proof -
  have h: "sample_items \<noteq> []" by (simp add: sample_items_def)
  have c: "ceil_div (length sample_items) ROWS_PER_PAGE - 1 = 1"
    by (simp add: sample_items_def ceil_div_def ROWS_PER_PAGE_def)
  from form_fields_first_page_blank[rule_format, OF h, where header = "Some sample_header"] c
  show ?thesis by blast
qed

section \<open>Extraction orchestrator: outcomes\<close>

lemma page_loop_result:
  "page_loop fmt ps n acc = (None, m, all_items) \<Longrightarrow>
     all_items = acc @ concat (map (read_items fmt) ps) \<and> m = n + int (length ps)
     \<and> \<not> list_ex raises ps"
proof (induction ps arbitrary: n acc)
  case Nil
  then show ?case by simp
next
  case (Cons p ps)
  show ?case
  proof (cases p)
    case (PageRaises msg)
    then show ?thesis using Cons.prems by simp
  next
    case (PageOk tables pt)
    then have "page_loop fmt ps (n + 1) (acc @ page_items fmt tables (cell_text pt))
                 = (None, m, all_items)"
      using Cons.prems by simp
    from Cons.IH[OF this] show ?thesis
      using PageOk by (simp add: read_items_def raises_def)
  qed
qed



lemma length_renumber: "length (renumber xs) = length xs"
  by (simp add: renumber_def)

lemma renumber_nth:
  "k < length xs \<Longrightarrow> renumber xs ! k = (xs ! k)\<lparr>line_no := int k + 1\<rparr>"
  by (simp add: renumber_def nth_enumerate_eq)

lemma renumber_Nil_iff: "renumber xs = [] \<longleftrightarrow> xs = []"
  using length_renumber[of xs] by (metis length_0_conv)

lemma upto_from_one: "[1..int n] = map (\<lambda>i. int i + 1) [0..<n]"
proof (induction n)
  case 0
  then show ?case by simp
next
  case (Suc n)
  have "[1..int (Suc n)] = [1..int n] @ [int n + 1]"
    using upto_rec2[of 1 "int (Suc n)"] by (simp add: add.commute)
  then show ?case using Suc by simp
qed

lemma renumber_line_nos: "map line_no (renumber xs) = [1..int (length xs)]"
proof -
  have "map line_no (renumber xs) = map ((\<lambda>i. int i + 1) \<circ> fst) (enumerate 0 xs)"
    by (simp add: renumber_def o_def case_prod_unfold)
  also have "\<dots> = map (\<lambda>i. int i + 1) (map fst (enumerate 0 xs))"
    by (simp only: map_map)
  also have "\<dots> = [1..int (length xs)]"
    by (simp only: map_fst_enumerate upto_from_one) simp
  finally show ?thesis .
qed

lemma line_nos_increasing: "sorted_wrt (<) [1..int n]"
  by (simp add: upto_from_one sorted_wrt_map sorted_wrt_iff_nth_less)

lemmas extract_unfold = extract_items_from_pdf_def failed_def empty_result_def Let_def

lemma extract_open_raises:
  "extract_items_from_pdf (OpenRaises msg) sp =
     empty_result\<lparr>errors := [''Failed to process PDF: '' @ msg]\<rparr>"
  by (simp add: extract_unfold)

lemma extract_start_beyond:
  "int (length pages) \<le> sp \<Longrightarrow>
   extract_items_from_pdf (Opened pages) sp =
     empty_result\<lparr>errors := [start_page_message sp (length pages)]\<rparr>"
  by (simp add: extract_unfold)




lemma extract_first_page_raises:
  assumes "sp < int (length pages)" and "py_index pages sp = Some (PageRaises msg)"
  shows "extract_items_from_pdf (Opened pages) sp =
           empty_result\<lparr>errors := [''Failed to process PDF: '' @ msg]\<rparr>"
  using assms by (simp add: extract_unfold)

lemma extract_index_error:
  assumes "sp < int (length pages)" and "py_index pages sp = None"
  shows "extract_items_from_pdf (Opened pages) sp =
           empty_result\<lparr>errors := [''Failed to process PDF: list index out of range'']\<rparr>"
  using assms by (simp add: extract_unfold)

lemma extract_loop_raises:
  assumes "sp < int (length pages)" and "py_index pages sp = Some (PageOk ft fx)"
    and "page_loop (detect_bom_format ft (cell_text fx)) (py_slice_from pages sp) 0 []
           = (Some msg, m, all_items)"
  shows "extract_items_from_pdf (Opened pages) sp =
           empty_result\<lparr>format_detected := detect_bom_format ft (cell_text fx),
                         metadata_bom_format := detect_bom_format ft (cell_text fx),
                         pages_processed := m,
                         errors := [''Failed to process PDF: '' @ msg]\<rparr>"
  using assms by (simp add: extract_unfold)

lemma extract_loop_done:
  assumes "sp < int (length pages)" and "py_index pages sp = Some (PageOk ft fx)"
    and "page_loop (detect_bom_format ft (cell_text fx)) (py_slice_from pages sp) 0 []
           = (None, m, all_items)"
  shows "extract_items_from_pdf (Opened pages) sp =
           empty_result\<lparr>format_detected := detect_bom_format ft (cell_text fx),
                         metadata_bom_format := detect_bom_format ft (cell_text fx),
                         pages_processed := m,
                         items := renumber all_items,
                         warnings := (if all_items = [] then [no_items_warning] else [])\<rparr>"
  using assms by (simp add: extract_unfold renumber_Nil_iff)

text \<open>Every run ends in one of two ways: one error, no item and no warning; or no error,
  the renumbered records of the pages visited, and the warning exactly when there are none.\<close>

lemma extract_outcome:
  "(\<exists>e. errors (extract_items_from_pdf src sp) = [e]
        \<and> items (extract_items_from_pdf src sp) = []
        \<and> warnings (extract_items_from_pdf src sp) = [])
   \<or> (errors (extract_items_from_pdf src sp) = []
       \<and> (\<exists>pages. src = Opened pages
             \<and> \<not> list_ex raises (py_slice_from pages sp)
             \<and> items (extract_items_from_pdf src sp)
                 = renumber (concat (map (read_items (format_detected (extract_items_from_pdf src sp)))
                                        (py_slice_from pages sp)))
             \<and> pages_processed (extract_items_from_pdf src sp)
                 = int (length (py_slice_from pages sp)))
       \<and> warnings (extract_items_from_pdf src sp)
           = (if items (extract_items_from_pdf src sp) = [] then [no_items_warning] else []))"
proof (cases src)
  case (OpenRaises msg)
  then show ?thesis by (simp add: extract_open_raises empty_result_def)
next
  case (Opened pages)
  show ?thesis
  proof (cases "int (length pages) \<le> sp")
    case True
    then show ?thesis using Opened by (simp add: extract_start_beyond empty_result_def)
  next
    case False
    then have lt: "sp < int (length pages)" by simp
    show ?thesis
    proof (cases "py_index pages sp")
      case None
      then show ?thesis
        using Opened by (simp add: extract_index_error[OF lt] empty_result_def)
    next
      case (Some pr)
      show ?thesis
      proof (cases pr)
        case (PageRaises msg)
        then show ?thesis
          using Opened Some by (simp add: extract_first_page_raises[OF lt] empty_result_def)
      next
        case (PageOk ft fx)
        then have ix: "py_index pages sp = Some (PageOk ft fx)" using Some by simp
        obtain e m all_items where
          pl: "page_loop (detect_bom_format ft (cell_text fx)) (py_slice_from pages sp) 0 []
                 = (e, m, all_items)"
          by (cases "page_loop (detect_bom_format ft (cell_text fx)) (py_slice_from pages sp) 0 []")
        show ?thesis
        proof (cases e)
          case None
          from pl[unfolded None, THEN page_loop_result]
          have r: "all_items = concat (map (read_items (detect_bom_format ft (cell_text fx)))
                                           (py_slice_from pages sp))"
            "m = int (length (py_slice_from pages sp))"
            "\<not> list_ex raises (py_slice_from pages sp)"
            by simp_all
          show ?thesis
            using Opened r
            by (simp add: extract_loop_done[OF lt ix pl[unfolded None]] empty_result_def
                  renumber_Nil_iff)
        next
          case (Some msg)
          then show ?thesis
            using Opened
            by (simp add: extract_loop_raises[OF lt ix pl[unfolded Some]] empty_result_def)
        qed
      qed
    qed
  qed
qed


section \<open>Line numbering and error reporting\<close>

lemma extract_line_nos:
  "map line_no (items (extract_items_from_pdf src sp))
     = [1..int (length (items (extract_items_from_pdf src sp)))]"
  using extract_outcome[of src sp]
proof (elim disjE exE conjE)
  fix e
  assume "items (extract_items_from_pdf src sp) = []"
  then show ?thesis by simp
next
  fix pages
  assume "items (extract_items_from_pdf src sp)
            = renumber (concat (map (read_items (format_detected (extract_items_from_pdf src sp)))
                                   (py_slice_from pages sp)))"
  then show ?thesis by (simp add: renumber_line_nos length_renumber)
qed

lemma extract_items_in_order:
  assumes "errors (extract_items_from_pdf (Opened pages) sp) = []"
  shows "items (extract_items_from_pdf (Opened pages) sp)
           = renumber (concat (map (read_items (format_detected (extract_items_from_pdf (Opened pages) sp)))
                                  (py_slice_from pages sp)))"
  using extract_outcome[of "Opened pages" sp] assms by auto

text \<open>
  Claim C4. After the orchestrator's renumbering the line numbers of the returned items
  are exactly 1, 2, ..., N, hence strictly increasing; the items are the records of the
  pages visited, concatenated in page order, and the item at position \<open>k\<close> is the \<open>k\<close>-th
  such record with line number \<open>k + 1\<close>, however many pages contributed.
\<close>

theorem line_numbers_contiguous:
  "map line_no (items (extract_items_from_pdf src sp))
     = [1..int (length (items (extract_items_from_pdf src sp)))]
   \<and> sorted_wrt (<) (map line_no (items (extract_items_from_pdf src sp)))
   \<and> (errors (extract_items_from_pdf (Opened pages) sp) = [] \<longrightarrow>
        items (extract_items_from_pdf (Opened pages) sp)
          = renumber (concat (map (read_items (format_detected (extract_items_from_pdf (Opened pages) sp)))
                                 (py_slice_from pages sp))))
   \<and> length (renumber xs) = length xs
   \<and> (k < length xs \<longrightarrow> renumber xs ! k = (xs ! k)\<lparr>line_no := int k + 1\<rparr>)"
proof -
  have "sorted_wrt (<) (map line_no (items (extract_items_from_pdf src sp)))"
    by (simp only: extract_line_nos line_nos_increasing)
  then show ?thesis
    using extract_line_nos[of src sp] extract_items_in_order[of pages sp]
      length_renumber[of xs] renumber_nth[of k xs]
    by blast
qed

theorem line_numbers_contiguous_witness:
  "map line_no (items (extract_items_from_pdf (Opened sample_pages) 0))
     = [1..int (length (items (extract_items_from_pdf (Opened sample_pages) 0)))]
   \<and> items (extract_items_from_pdf (Opened sample_pages) 0)
       = renumber (concat (map (read_items (format_detected
                                   (extract_items_from_pdf (Opened sample_pages) 0)))
                              (py_slice_from sample_pages 0)))
   \<and> renumber (extract_items_gcss_standard [[[Some ''Description''], [Some ''NUT, PLAIN'']]]) ! 0
       = (extract_items_gcss_standard [[[Some ''Description''], [Some ''NUT, PLAIN'']]] ! 0)
           \<lparr>line_no := int 0 + 1\<rparr>
   \<and> map line_no (items (extract_items_from_pdf (Opened sample_pages) 0)) = [1, 2]
   \<and> map description (items (extract_items_from_pdf (Opened sample_pages) 0))
       = [''BOLT, HEX'', ''NUT, PLAIN'']"
proof -
  have e: "errors (extract_items_from_pdf (Opened sample_pages) 0) = []"
    by code_simp
  have k: "0 < length (extract_items_gcss_standard [[[Some ''Description''], [Some ''NUT, PLAIN'']]])"
    by code_simp
  have v: "map line_no (items (extract_items_from_pdf (Opened sample_pages) 0)) = [1, 2]
           \<and> map description (items (extract_items_from_pdf (Opened sample_pages) 0))
               = [''BOLT, HEX'', ''NUT, PLAIN'']"
    by code_simp
  from line_numbers_contiguous[THEN conjunct1]
    line_numbers_contiguous[THEN conjunct2, THEN conjunct2, THEN conjunct1, rule_format, OF e]
    line_numbers_contiguous[THEN conjunct2, THEN conjunct2, THEN conjunct2, THEN conjunct2,
      rule_format, OF k]
    v
  show ?thesis by blast
qed






section \<open>Fallback for an unknown format\<close>

lemma page_items_unknown:
  "page_items UNKNOWN tables pt =
     (if extract_items_gcss_standard tables \<noteq> [] then extract_items_gcss_standard tables
      else if extract_items_epp_format tables pt \<noteq> [] then extract_items_epp_format tables pt
      else extract_items_gcss_standard tables)"
  by (simp add: page_items_def Let_def)

text \<open>
  Claim C9. When the detected format is Unknown, each page is given first to the
  standard-format extractor and then, if that yields nothing, to the
  equipment-property-record extractor; the non-empty list is kept, and when both are
  empty the result is the standard extractor's (empty) list. The orchestrator's items are
  these per-page lists, concatenated and renumbered.
\<close>

theorem unknown_format_fallback:
  "page_items UNKNOWN tables pt =
     (if extract_items_gcss_standard tables \<noteq> [] then extract_items_gcss_standard tables
      else if extract_items_epp_format tables pt \<noteq> [] then extract_items_epp_format tables pt
      else extract_items_gcss_standard tables)
   \<and> page_loop UNKNOWN (PageOk tables ptx # ps) n acc =
       page_loop UNKNOWN ps (n + 1)
         (acc @ (if extract_items_gcss_standard tables \<noteq> [] then extract_items_gcss_standard tables
                 else if extract_items_epp_format tables (cell_text ptx) \<noteq> []
                      then extract_items_epp_format tables (cell_text ptx)
                      else extract_items_gcss_standard tables))
   \<and> read_items UNKNOWN (PageOk tables ptx) = page_items UNKNOWN tables (cell_text ptx)
   \<and> (errors (extract_items_from_pdf (Opened pages) sp) = []
        \<and> format_detected (extract_items_from_pdf (Opened pages) sp) = UNKNOWN \<longrightarrow>
        items (extract_items_from_pdf (Opened pages) sp)
          = renumber (concat (map (read_items UNKNOWN) (py_slice_from pages sp))))"
proof -
  have l: "page_loop UNKNOWN (PageOk tables ptx # ps) n acc =
       page_loop UNKNOWN ps (n + 1)
         (acc @ (if extract_items_gcss_standard tables \<noteq> [] then extract_items_gcss_standard tables
                 else if extract_items_epp_format tables (cell_text ptx) \<noteq> []
                      then extract_items_epp_format tables (cell_text ptx)
                      else extract_items_gcss_standard tables))"
    by (simp only: page_loop.simps page_items_unknown)
  have r: "read_items UNKNOWN (PageOk tables ptx) = page_items UNKNOWN tables (cell_text ptx)"
    by (simp add: read_items_def)
  have o: "errors (extract_items_from_pdf (Opened pages) sp) = []
        \<and> format_detected (extract_items_from_pdf (Opened pages) sp) = UNKNOWN \<longrightarrow>
        items (extract_items_from_pdf (Opened pages) sp)
          = renumber (concat (map (read_items UNKNOWN) (py_slice_from pages sp)))"
    using extract_items_in_order[of pages sp] by auto
  show ?thesis using page_items_unknown[of tables pt] l r o by blast
qed

theorem unknown_format_fallback_witness:
  "items (extract_items_from_pdf (Opened sample_unknown_pages) 0)
     = renumber (concat (map (read_items UNKNOWN) (py_slice_from sample_unknown_pages 0)))
   \<and> map description (items (extract_items_from_pdf (Opened sample_unknown_pages) 0))
       = [''BOLT, HEX'']
   \<and> extract_items_gcss_standard
        [[[Some ''LV'', Some ''Description''], [Some ''C'', Some ''first line\<newline>BOLT, HEX'']]]
       = []
   \<and> map description (extract_items_epp_format
        [[[Some ''LV'', Some ''Description''], [Some ''C'', Some ''first line\<newline>BOLT, HEX'']]] [])
       = [''BOLT, HEX'']"
proof -
  have h: "errors (extract_items_from_pdf (Opened sample_unknown_pages) 0) = []
           \<and> format_detected (extract_items_from_pdf (Opened sample_unknown_pages) 0) = UNKNOWN"
    by code_simp
  have e: "map description (items (extract_items_from_pdf (Opened sample_unknown_pages) 0))
             = [''BOLT, HEX'']
           \<and> extract_items_gcss_standard
                [[[Some ''LV'', Some ''Description''],
                  [Some ''C'', Some ''first line\<newline>BOLT, HEX'']]] = []
           \<and> map description (extract_items_epp_format
                [[[Some ''LV'', Some ''Description''],
                  [Some ''C'', Some ''first line\<newline>BOLT, HEX'']]] [])
               = [''BOLT, HEX'']"
    by code_simp
  from unknown_format_fallback[THEN conjunct2, THEN conjunct2, THEN conjunct2, rule_format, OF h] e
  show ?thesis by (rule conjI)
qed

section \<open>Row filtering and quantities in the item extractors\<close>

lemma foldl_append_item:
  "foldl (\<lambda>acc r. append_item acc (f r)) its rows =
     its @ map (\<lambda>ke. case ke of (k, d, s, q) \<Rightarrow> new_item (int k + 1) d s q)
              (enumerate (length its) (List.map_filter f rows))"
proof (induction rows arbitrary: its)
  case Nil
  then show ?case by (simp add: List.map_filter_simps)
next
  case (Cons r rows)
  show ?case
  proof (cases "f r")
    case None
    then show ?thesis using Cons.IH[of its] by (simp add: List.map_filter_simps append_item_def)
  next
    case (Some e)
    obtain d s q where e: "e = (d, s, q)" by (cases e)
    have "append_item its (f r) = its @ [new_item (int (length its) + 1) d s q]"
      by (simp add: append_item_def Some e)
    then show ?thesis
      using Cons.IH[of "its @ [new_item (int (length its) + 1) d s q]"]
      by (simp add: List.map_filter_simps Some e)
  qed
qed

lemma gcss_table_rows:
  assumes "rows \<noteq> []" and "ix_description (find_column_indices header) = Some d"
  shows "gcss_table its (header # rows) =
           its @ map (\<lambda>ke. case ke of (k, d, s, q) \<Rightarrow> new_item (int k + 1) d s q)
                    (enumerate (length its)
                       (List.map_filter (gcss_row (find_column_indices header) d) rows))"
proof -
  have "\<not> (header # rows = [] \<or> length (header # rows) < 2)"
    using assms(1) by (cases rows) auto
  then show ?thesis
    using assms(2) by (simp add: gcss_table_def Let_def foldl_append_item)
qed




lemma gcss_row_level_other:
  assumes "ix_lv indices = Some l" and "upper (strip (cell_text (cell_at r l))) \<noteq> ''B''"
  shows "gcss_row indices d r = None"
  using assms by (simp add: gcss_row_def gcss_level_skips_def)





lemma oh_unread_parts:
  "row_nsn (indices\<lparr>ix_oh_qty := x\<rparr>) r = row_nsn indices r"
  "gcss_qty (indices\<lparr>ix_oh_qty := x\<rparr>) r = gcss_qty indices r"
  "epp_qty (indices\<lparr>ix_oh_qty := x\<rparr>) r = epp_qty indices r"
  "gcss_level_skips (indices\<lparr>ix_oh_qty := x\<rparr>) r = gcss_level_skips indices r"
  "epp_level_skips (indices\<lparr>ix_oh_qty := x\<rparr>) r = epp_level_skips indices r"
  by (simp_all add: row_nsn_def gcss_qty_def epp_qty_def gcss_level_skips_def
        epp_level_skips_def)

lemma gcss_row_oh_unread: "gcss_row (indices\<lparr>ix_oh_qty := x\<rparr>) d r = gcss_row indices d r"
  by (simp add: gcss_row_def oh_unread_parts Let_def)

lemma epp_row_oh_unread: "epp_row (indices\<lparr>ix_oh_qty := x\<rparr>) d r = epp_row indices d r"
  by (simp add: epp_row_def oh_unread_parts Let_def)

lemma extract_quantity_falsy: "\<not> truthy c \<Longrightarrow> extract_quantity c = 1"
  by (simp add: extract_quantity_def)

lemma gcss_qty_eq: "gcss_qty indices r = epp_qty indices r"
  by (simp add: gcss_qty_def epp_qty_def extract_quantity_falsy split: option.splits)

lemma gcss_row_qty: "gcss_row indices d r = Some (dsc, s, q) \<Longrightarrow> q = epp_qty indices r"
  by (auto simp: gcss_row_def Let_def gcss_qty_eq split: if_splits)

lemma epp_row_qty: "epp_row indices d r = Some (dsc, s, q) \<Longrightarrow> q = epp_qty indices r"
  by (auto simp: epp_row_def Let_def split: if_splits)

lemma epp_qty_unresolved:
  "ix_auth_qty indices = None \<or> (\<exists>a. ix_auth_qty indices = Some a \<and> length r \<le> a)
   \<Longrightarrow> epp_qty indices r = 1"
  by (auto simp: epp_qty_def)

lemma epp_table_rows:
  assumes "rows \<noteq> []" and "ix_description (find_column_indices header) = Some d"
  shows "epp_table its (header # rows) =
           its @ map (\<lambda>ke. case ke of (k, d, s, q) \<Rightarrow> new_item (int k + 1) d s q)
                    (enumerate (length its)
                       (List.map_filter (epp_row (find_column_indices header) d) rows))"
proof -
  have "\<not> (header # rows = [] \<or> length (header # rows) < 2)"
    using assms(1) by (cases rows) auto
  then show ?thesis
    using assms(2) by (simp add: epp_table_def Let_def foldl_append_item)
qed

text \<open>
  Claim C10. Both per-format extractors take a record's quantity from the
  authorized-quantity column resolved by the column mapper and from nowhere else. The
  mapper resolves an on-hand-quantity column, but changing that index changes nothing in
  what either extractor makes of a row; the quantity of an emitted row is the quantity
  extracted from the authorized-quantity cell when that column is resolved and within the
  row, and 1 otherwise, whatever the on-hand cell holds.
\<close>

theorem quantity_from_auth_column:
  "gcss_row (indices\<lparr>ix_oh_qty := x\<rparr>) d r = gcss_row indices d r
   \<and> epp_row (indices\<lparr>ix_oh_qty := x\<rparr>) d r = epp_row indices d r
   \<and> (gcss_row indices d r = Some (dsc, s, q) \<or> epp_row indices d r = Some (dsc, s, q)
        \<longrightarrow> q = (case ix_auth_qty indices of
                    None \<Rightarrow> 1
                  | Some a \<Rightarrow> if a < length r then extract_quantity (r ! a) else 1))
   \<and> ((ix_auth_qty indices = None \<or> (\<exists>a. ix_auth_qty indices = Some a \<and> length r \<le> a))
        \<and> (gcss_row indices d r = Some (dsc, s, q) \<or> epp_row indices d r = Some (dsc, s, q))
        \<longrightarrow> q = 1)
   \<and> (rows \<noteq> [] \<and> ix_description (find_column_indices header) = Some d
        \<longrightarrow> gcss_table its (header # rows) =
              its @ map (\<lambda>ke. case ke of (k, d, s, q) \<Rightarrow> new_item (int k + 1) d s q)
                       (enumerate (length its)
                          (List.map_filter (gcss_row (find_column_indices header) d) rows))
            \<and> epp_table its (header # rows) =
              its @ map (\<lambda>ke. case ke of (k, d, s, q) \<Rightarrow> new_item (int k + 1) d s q)
                       (enumerate (length its)
                          (List.map_filter (epp_row (find_column_indices header) d) rows)))
   \<and> ix_oh_qty (find_column_indices [Some ''Description'', Some ''OH QTY'']) = Some 1
   \<and> ix_auth_qty (find_column_indices [Some ''Description'', Some ''OH QTY'']) = None
   \<and> map qty (extract_items_gcss_standard
                 [[[Some ''Description'', Some ''OH QTY''], [Some ''BOLT, HEX'', Some ''7'']]]) = [1]
   \<and> map qty (extract_items_epp_format
                 [[[Some ''Description'', Some ''OH QTY''], [Some ''BOLT, HEX'', Some ''7'']]] pt)
       = [1]"
proof -
  have q: "gcss_row indices d r = Some (dsc, s, q) \<or> epp_row indices d r = Some (dsc, s, q)
        \<longrightarrow> q = epp_qty indices r"
    using gcss_row_qty epp_row_qty by blast
  have q1: "gcss_row indices d r = Some (dsc, s, q) \<or> epp_row indices d r = Some (dsc, s, q)
        \<longrightarrow> q = (case ix_auth_qty indices of
                    None \<Rightarrow> 1
                  | Some a \<Rightarrow> if a < length r then extract_quantity (r ! a) else 1)"
    using q by (simp add: epp_qty_def)
  have q2: "(ix_auth_qty indices = None \<or> (\<exists>a. ix_auth_qty indices = Some a \<and> length r \<le> a))
        \<and> (gcss_row indices d r = Some (dsc, s, q) \<or> epp_row indices d r = Some (dsc, s, q))
        \<longrightarrow> q = 1"
    using q epp_qty_unresolved[of indices r] by blast
  have e: "ix_oh_qty (find_column_indices [Some ''Description'', Some ''OH QTY'']) = Some 1
   \<and> ix_auth_qty (find_column_indices [Some ''Description'', Some ''OH QTY'']) = None
   \<and> map qty (extract_items_gcss_standard
                 [[[Some ''Description'', Some ''OH QTY''], [Some ''BOLT, HEX'', Some ''7'']]]) = [1]"
    by code_simp
  have "extract_items_epp_format
          [[[Some ''Description'', Some ''OH QTY''], [Some ''BOLT, HEX'', Some ''7'']]] pt
        = extract_items_epp_format
          [[[Some ''Description'', Some ''OH QTY''], [Some ''BOLT, HEX'', Some ''7'']]] []"
    by (simp only: extract_items_epp_format_def)
  moreover have "map qty (extract_items_epp_format
          [[[Some ''Description'', Some ''OH QTY''], [Some ''BOLT, HEX'', Some ''7'']]] []) = [1]"
    by code_simp
  ultimately have e2: "map qty (extract_items_epp_format
          [[[Some ''Description'', Some ''OH QTY''], [Some ''BOLT, HEX'', Some ''7'']]] pt) = [1]"
    by simp
  show ?thesis
    using gcss_row_oh_unread[of x indices d r] epp_row_oh_unread[of x indices d r] q1 q2
      gcss_table_rows[of rows header d its] epp_table_rows[of rows header d its] e e2
    by blast
qed

theorem quantity_from_auth_column_witness:
  "(3::int) = (case ix_auth_qty (find_column_indices sample_header_row) of
                 None \<Rightarrow> 1
               | Some a \<Rightarrow> if a < length (sample_rows ! 1)
                           then extract_quantity (sample_rows ! 1 ! a) else 1)
   \<and> gcss_row (find_column_indices [Some ''Description'', Some ''OH QTY'']) 0
        [Some ''BOLT, HEX'', Some ''7''] = Some (''BOLT, HEX'', [], 1)
   \<and> ix_auth_qty (find_column_indices [Some ''Description'', Some ''OH QTY'']) = None
   \<and> gcss_table [] (sample_header_row # sample_rows) =
       [] @ map (\<lambda>ke. case ke of (k, d, s, q) \<Rightarrow> new_item (int k + 1) d s q)
              (enumerate (length ([] :: BomItem list))
                 (List.map_filter (gcss_row (find_column_indices sample_header_row) 1)
                    sample_rows))
   \<and> epp_table [] (sample_header_row # sample_rows) =
       [] @ map (\<lambda>ke. case ke of (k, d, s, q) \<Rightarrow> new_item (int k + 1) d s q)
              (enumerate (length ([] :: BomItem list))
                 (List.map_filter (epp_row (find_column_indices sample_header_row) 1)
                    sample_rows))
   \<and> map qty (extract_items_gcss_standard [sample_header_row # sample_rows]) = [3]
   \<and> map qty (extract_items_epp_format [sample_header_row # sample_rows] []) = [3]"
proof -
  have g: "ix_auth_qty (find_column_indices [Some ''Description'', Some ''OH QTY'']) = None
           \<and> gcss_row (find_column_indices [Some ''Description'', Some ''OH QTY'']) 0
                [Some ''BOLT, HEX'', Some ''7''] = Some (''BOLT, HEX'', [], 1)"
    by code_simp
  then have h: "(ix_auth_qty (find_column_indices [Some ''Description'', Some ''OH QTY'']) = None
      \<or> (\<exists>a. ix_auth_qty (find_column_indices [Some ''Description'', Some ''OH QTY'']) = Some a
               \<and> length [Some ''BOLT, HEX'', Some ''7''] \<le> a))
    \<and> (gcss_row (find_column_indices [Some ''Description'', Some ''OH QTY'']) 0
          [Some ''BOLT, HEX'', Some ''7''] = Some (''BOLT, HEX'', [], 1)
        \<or> epp_row (find_column_indices [Some ''Description'', Some ''OH QTY'']) 0
          [Some ''BOLT, HEX'', Some ''7''] = Some (''BOLT, HEX'', [], 1))"
    by blast
  have r: "gcss_row (find_column_indices sample_header_row) 1 (sample_rows ! 1)
             = Some (''BOLT, HEX'', [], 3)"
    by code_simp
  then have r': "gcss_row (find_column_indices sample_header_row) 1 (sample_rows ! 1)
                   = Some (''BOLT, HEX'', [], 3)
                 \<or> epp_row (find_column_indices sample_header_row) 1 (sample_rows ! 1)
                   = Some (''BOLT, HEX'', [], 3)"
    by blast
  have c: "sample_rows \<noteq> [] \<and> ix_description (find_column_indices sample_header_row) = Some 1"
    by code_simp
  have v: "map qty (extract_items_gcss_standard [sample_header_row # sample_rows]) = [3]
           \<and> map qty (extract_items_epp_format [sample_header_row # sample_rows] []) = [3]"
    by code_simp
  note t = quantity_from_auth_column
  from t[THEN conjunct2, THEN conjunct2, THEN conjunct1, rule_format, OF r']
    t[THEN conjunct2, THEN conjunct2, THEN conjunct2, THEN conjunct2, THEN conjunct1,
      rule_format, OF c, where its = "[]"]
    g v
  show ?thesis by blast
qed

end
